theory Spec2Isabelle
  imports Complex_Main
begin

section \<open>NovaSphere: the orbit updater and the camera-focus state machine\<close>

text \<open>
  The development follows the class \<open>SolarSystem\<close> of the shader variant of the script
  (the variant with \<open>cameraFollowMode\<close>). The plain variant has the same registry, the
  same body update in \<open>animate\<close> and the same handlers, but no follow block, and it
  guards the camera update of a drag by \<open>currentFocusedPlanet\<close>. JavaScript numbers are modelled as the real
  numbers: arithmetic is exact, there is no rounding, no NaN and no infinity. The DOM
  (tooltip, cursor, panel markup), the renderer and the materials' colours are outside
  the modelled state; of the information panel only its \<open>active\<close> class and the name it
  shows are kept.
\<close>

subsection \<open>Vectors and the library operations the script calls\<close>

record vec3 =
  vx :: real
  vy :: real
  vz :: real

definition Vector3 :: "real \<Rightarrow> real \<Rightarrow> real \<Rightarrow> vec3" where
  "Vector3 a b c = \<lparr>vx = a, vy = b, vz = c\<rparr>"

text \<open>\<open>Vector3.add\<close>, \<open>Vector3.lerp\<close>, \<open>Vector3.setFromSpherical\<close> and
  \<open>Matrix4.makeRotationY\<close> followed by \<open>Vector3.applyMatrix4\<close>, as the graphics
  library (three.js r128) defines them.\<close>

definition add :: "vec3 \<Rightarrow> vec3 \<Rightarrow> vec3" where
  "add u v = \<lparr>vx = vx u + vx v, vy = vy u + vy v, vz = vz u + vz v\<rparr>"

definition lerp :: "vec3 \<Rightarrow> vec3 \<Rightarrow> real \<Rightarrow> vec3" where
  "lerp u v alpha =
     \<lparr>vx = vx u + (vx v - vx u) * alpha,
      vy = vy u + (vy v - vy u) * alpha,
      vz = vz u + (vz v - vz u) * alpha\<rparr>"

definition setFromSpherical :: "real \<Rightarrow> real \<Rightarrow> real \<Rightarrow> vec3" where
  "setFromSpherical radius phi theta =
     \<lparr>vx = sin phi * radius * sin theta,
      vy = cos phi * radius,
      vz = sin phi * radius * cos theta\<rparr>"

definition applyRotationY :: "real \<Rightarrow> vec3 \<Rightarrow> vec3" where
  "applyRotationY theta v =
     \<lparr>vx = cos theta * vx v + sin theta * vz v,
      vy = vy v,
      vz = - sin theta * vx v + cos theta * vz v\<rparr>"

text \<open>Squared Euclidean distance; the distance itself is its square root.\<close>

definition distanceToSquared :: "vec3 \<Rightarrow> vec3 \<Rightarrow> real" where
  "distanceToSquared u v = (vx u - vx v)\<^sup>2 + (vy u - vy v)\<^sup>2 + (vz u - vz v)\<^sup>2"

definition distanceTo :: "vec3 \<Rightarrow> vec3 \<Rightarrow> real" where
  "distanceTo u v = sqrt (distanceToSquared u v)"

subsection \<open>The data model\<close>

text \<open>An entry of the literal \<open>planetData\<close>. Of its fields the description, the facts,
  the colour and the texture are presentation only and are left out.\<close>

record planet_data =
  d_name :: string
  d_radius :: real
  d_orbitRadius :: real
  d_speed :: real
  d_rotationSpeed :: real

text \<open>A planet object of \<open>this.planets\<close>. \<open>mesh_position\<close>, \<open>mesh_rotation_y\<close> and
  \<open>mesh_radius\<close> are \<open>mesh.position\<close>, \<open>mesh.rotation.y\<close> and
  \<open>mesh.geometry.parameters.radius\<close>; \<open>material_time\<close> is
  \<open>material.uniforms.time.value\<close>, absent for a material without uniforms.\<close>

record planet =
  name :: string
  mesh_position :: vec3
  mesh_rotation_y :: real
  mesh_radius :: real
  orbitRadius :: real
  angle :: real
  speed :: real
  baseSpeed :: real
  rotationSpeed :: real
  material_time :: "real option"

record sun_mesh =
  sun_rotation_y :: real
  sun_time :: real

record controls =
  isMouseDown :: bool
  mouseX :: real
  mouseY :: real
  c_rotationSpeed :: real
  minDistance :: real
  maxDistance :: real
  spherical_radius :: real
  spherical_phi :: real
  spherical_theta :: real
  target :: vec3

text \<open>The camera: its position and the point it was last oriented at by \<open>lookAt\<close>.\<close>

record camera =
  position :: vec3
  lookAt :: vec3

text \<open>A call of \<open>gsap.to(this.camera.position, ...)\<close>: the destination and what the
  \<open>onUpdate\<close> callback looks at (the origin, or the mesh of a planet of the registry).\<close>

datatype look = LookOrigin | LookPlanet nat

record tween =
  tween_to :: vec3
  tween_look :: look

record state =
  isPaused :: bool
  globalSpeedMultiplier :: real
  planets :: "planet list"
  sun :: "sun_mesh option"
  stars :: "real option"
  planetInfo_active :: bool
  planetInfo_name :: string
  currentFocusedPlanet :: "nat option"
  cameraFollowMode :: bool
  defaultCameraPosition :: vec3
  cam :: camera
  ctl :: controls
  tweens :: "tween list"

subsection \<open>Creating the registry\<close>

text \<open>The literal \<open>planetData\<close> of \<open>createSolarSystem\<close>. Saturn and Neptune write the key
  \<open>orbitRadius\<close> twice; the later value (36, 50) is the one the object holds.\<close>

definition planetData :: "planet_data list" where
  "planetData =
     [\<lparr>d_name = ''Mercury'', d_radius = 1.2, d_orbitRadius = 8, d_speed = 0.003, d_rotationSpeed = 0.0003\<rparr>,
      \<lparr>d_name = ''Venus'', d_radius = 1.8, d_orbitRadius = 12, d_speed = 0.005, d_rotationSpeed = 0.0008\<rparr>,
      \<lparr>d_name = ''Earth'', d_radius = 2.0, d_orbitRadius = 16, d_speed = 0.008, d_rotationSpeed = 0.01\<rparr>,
      \<lparr>d_name = ''Mars'', d_radius = 1.6, d_orbitRadius = 20, d_speed = 0.005, d_rotationSpeed = 0.009\<rparr>,
      \<lparr>d_name = ''Jupiter'', d_radius = 5.5, d_orbitRadius = 28, d_speed = 0.001, d_rotationSpeed = 0.02\<rparr>,
      \<lparr>d_name = ''Saturn'', d_radius = 4.8, d_orbitRadius = 36, d_speed = 0.0004, d_rotationSpeed = 0.018\<rparr>,
      \<lparr>d_name = ''Uranus'', d_radius = 3.2, d_orbitRadius = 44, d_speed = 0.00015, d_rotationSpeed = 0.015\<rparr>,
      \<lparr>d_name = ''Neptune'', d_radius = 3.1, d_orbitRadius = 50, d_speed = 0.00008, d_rotationSpeed = 0.016\<rparr>]"

text \<open>The \<open>switch (data.name)\<close> of \<open>createPlanet\<close>: every named planet but Saturn gets
  a shader material with a \<open>time\<close> uniform (initially 0); Saturn and the default case
  get a Phong material, which has no uniforms.\<close>

definition createMaterial :: "string \<Rightarrow> real option" where
  "createMaterial nm =
     (if nm \<in> {''Earth'', ''Mars'', ''Jupiter'', ''Venus'', ''Mercury'', ''Uranus'', ''Neptune''}
      then Some 0 else None)"

text \<open>\<open>createPlanet(data, index)\<close>: a new mesh sits at the origin unrotated; only
  \<open>mesh.position.x\<close> is written. The planet object is pushed onto \<open>this.planets\<close>.\<close>

definition createPlanet :: "planet_data \<Rightarrow> nat \<Rightarrow> state \<Rightarrow> state" where
  "createPlanet data index s =
     s\<lparr>planets := planets s @
        [\<lparr>name = d_name data,
          mesh_position = \<lparr>vx = d_orbitRadius data, vy = 0, vz = 0\<rparr>,
          mesh_rotation_y = 0,
          mesh_radius = d_radius data,
          orbitRadius = d_orbitRadius data,
          angle = (real index * pi * 2) / 8,
          speed = d_speed data,
          baseSpeed = d_speed data,
          rotationSpeed = d_rotationSpeed data,
          material_time = createMaterial (d_name data)\<rparr>]\<rparr>"

definition createSun :: "state \<Rightarrow> state" where
  "createSun s = s\<lparr>sun := Some \<lparr>sun_rotation_y = 0, sun_time = 0\<rparr>\<rparr>"

text \<open>\<open>planetData.forEach((data, index) => this.createPlanet(data, index))\<close>, the index
  counting from the one given.\<close>

fun forEach_createPlanet :: "planet_data list \<Rightarrow> nat \<Rightarrow> state \<Rightarrow> state" where
  "forEach_createPlanet [] index s = s"
| "forEach_createPlanet (data # rest) index s =
     forEach_createPlanet rest (Suc index) (createPlanet data index s)"

definition createSolarSystem :: "planet_data list \<Rightarrow> state \<Rightarrow> state" where
  "createSolarSystem ds s = forEach_createPlanet ds 0 (createSun s)"

text \<open>\<open>updateCameraFromControls\<close>.\<close>

definition updateCameraFromControls :: "state \<Rightarrow> state" where
  "updateCameraFromControls s =
     s\<lparr>cam := \<lparr>position = add (setFromSpherical (spherical_radius (ctl s))
                                  (spherical_phi (ctl s)) (spherical_theta (ctl s)))
                               (target (ctl s)),
                lookAt = target (ctl s)\<rparr>\<rparr>"

text \<open>The state when \<open>init\<close> reaches \<open>createSolarSystem\<close>: the constructor's fields,
  then \<open>setupCamera\<close>, \<open>setupControls\<close> and \<open>createStarField\<close>.\<close>

definition setup_state :: state where
  "setup_state = updateCameraFromControls
     \<lparr>isPaused = False,
      globalSpeedMultiplier = 1,
      planets = [],
      sun = None,
      stars = Some 0,
      planetInfo_active = False,
      planetInfo_name = ''Planet Information'',
      currentFocusedPlanet = None,
      cameraFollowMode = False,
      defaultCameraPosition = Vector3 0 30 50,
      cam = \<lparr>position = Vector3 0 30 50, lookAt = Vector3 0 0 0\<rparr>,
      ctl = \<lparr>isMouseDown = False, mouseX = 0, mouseY = 0, c_rotationSpeed = 0.005,
             minDistance = 10, maxDistance = 200,
             spherical_radius = 50, spherical_phi = pi / 3, spherical_theta = 0,
             target = Vector3 0 0 0\<rparr>,
      tweens = []\<rparr>"

text \<open>The registry as \<open>init\<close> creates it, before the first frame.\<close>

definition created_state :: state where
  "created_state = createSolarSystem planetData setup_state"

subsection \<open>The frame\<close>

text \<open>The body of \<open>this.planets.forEach\<close> in \<open>animate\<close>, for one planet.\<close>

definition updatePlanet :: "real \<Rightarrow> real \<Rightarrow> planet \<Rightarrow> planet" where
  "updatePlanet elapsedTime g p =
     (let a = angle p + speed p * g in
      p\<lparr>material_time := map_option (\<lambda>_. elapsedTime) (material_time p),
        angle := a,
        mesh_position := (mesh_position p)\<lparr>vx := cos a * orbitRadius p, vz := sin a * orbitRadius p\<rparr>,
        mesh_rotation_y := mesh_rotation_y p + rotationSpeed p\<rparr>)"

text \<open>The block under \<open>if (!this.isPaused)\<close>.\<close>

definition updateBodies :: "real \<Rightarrow> state \<Rightarrow> state" where
  "updateBodies elapsedTime s =
     s\<lparr>sun := map_option (\<lambda>m. \<lparr>sun_rotation_y = sun_rotation_y m + 0.005, sun_time = elapsedTime\<rparr>) (sun s),
       planets := map (updatePlanet elapsedTime (globalSpeedMultiplier s)) (planets s),
       stars := map_option (\<lambda>r. r + 0.0002) (stars s)\<rparr>"

text \<open>The position the follow block steers at: the planet's mesh position plus the
  offset \<open>(0.8 d, 0.5 d, d)\<close>, \<open>d = 5 * radius\<close>, rotated about the vertical axis by the
  planet's angle.\<close>

definition cameraOffset :: "planet \<Rightarrow> vec3" where
  "cameraOffset p =
     (let distance = mesh_radius p * 5 in
      applyRotationY (angle p) (Vector3 (distance * 0.8) (distance * 0.5) distance))"

definition targetCameraPosition :: "planet \<Rightarrow> vec3" where
  "targetCameraPosition p = add (mesh_position p) (cameraOffset p)"

text \<open>The block under \<open>if (this.cameraFollowMode && this.currentFocusedPlanet)\<close>. The
  focused planet is a reference to an object of the registry, modelled as its index.\<close>

definition followCamera :: "state \<Rightarrow> state" where
  "followCamera s =
     (if cameraFollowMode s then
        (case currentFocusedPlanet s of
           None \<Rightarrow> s
         | Some i \<Rightarrow>
             if i < length (planets s) then
               (let p = planets s ! i in
                s\<lparr>cam := \<lparr>position = lerp (position (cam s)) (targetCameraPosition p) 0.05,
                           lookAt = mesh_position p\<rparr>\<rparr>)
             else s)
      else s)"

text \<open>\<open>animate\<close>, one frame; \<open>elapsedTime\<close> is what the clock reads in this frame.\<close>

definition animate :: "real \<Rightarrow> state \<Rightarrow> state" where
  "animate elapsedTime s =
     followCamera (if \<not> isPaused s then updateBodies elapsedTime s else s)"

subsection \<open>Focus, reset and the controls\<close>

definition showObjectInfo :: "string \<Rightarrow> state \<Rightarrow> state" where
  "showObjectInfo nm s = s\<lparr>planetInfo_name := nm, planetInfo_active := True\<rparr>"

text \<open>\<open>gsap.to(this.camera.position, ...)\<close> starts a camera transition; the tween engine
  is an external collaborator, so the call is recorded and nothing else happens in the
  handler itself.\<close>

definition gsap_to :: "vec3 \<Rightarrow> look \<Rightarrow> state \<Rightarrow> state" where
  "gsap_to dest lk s = s\<lparr>tweens := tweens s @ [\<lparr>tween_to = dest, tween_look = lk\<rparr>]\<rparr>"

definition focusOnSun :: "state \<Rightarrow> state" where
  "focusOnSun s =
     gsap_to (Vector3 0 15 25) LookOrigin
       (showObjectInfo ''Sun'' (s\<lparr>currentFocusedPlanet := None, cameraFollowMode := False\<rparr>))"

text \<open>\<open>focusOnPlanet(planet)\<close>, the planet given by its index in the registry.\<close>

definition focusOnPlanet :: "nat \<Rightarrow> state \<Rightarrow> state" where
  "focusOnPlanet i s =
     (let p = planets s ! i;
          distance = mesh_radius p * 5;
          targetPosition = (mesh_position p)\<lparr>vy := vy (mesh_position p) + distance * 0.5,
                                              vz := vz (mesh_position p) + distance\<rparr>
      in gsap_to targetPosition (LookPlanet i)
           (showObjectInfo (name p) (s\<lparr>currentFocusedPlanet := Some i, cameraFollowMode := True\<rparr>)))"

definition resetCameraView :: "state \<Rightarrow> state" where
  "resetCameraView s =
     gsap_to (defaultCameraPosition s) LookOrigin
       (s\<lparr>currentFocusedPlanet := None, cameraFollowMode := False,
          ctl := (ctl s)\<lparr>spherical_radius := 50, spherical_phi := pi / 3, spherical_theta := 0,
                          target := Vector3 0 0 0\<rparr>\<rparr>)"

text \<open>The click listeners of \<open>close-info\<close>, \<open>reset-btn\<close> and \<open>pause-btn\<close>.\<close>

definition closeInfo_click :: "state \<Rightarrow> state" where
  "closeInfo_click s =
     resetCameraView (s\<lparr>planetInfo_active := False, currentFocusedPlanet := None,
                        cameraFollowMode := False\<rparr>)"

definition resetBtn_click :: "state \<Rightarrow> state" where
  "resetBtn_click s =
     (resetCameraView s)\<lparr>planetInfo_active := False, currentFocusedPlanet := None,
                          cameraFollowMode := False\<rparr>"

definition pauseBtn_click :: "state \<Rightarrow> state" where
  "pauseBtn_click s = s\<lparr>isPaused := \<not> isPaused s\<rparr>"

text \<open>The \<open>input\<close> listener \<open>setupSpeedControls\<close> attaches to the slider of the planet
  of index \<open>i\<close>; the closure holds the planet object. There is one slider for each
  planet of the registry and no other, so an index beyond the registry has no listener.\<close>

definition slider_input :: "nat \<Rightarrow> real \<Rightarrow> state \<Rightarrow> state" where
  "slider_input i multiplier s =
     (if i < length (planets s) then
        s\<lparr>planets := (planets s)[i := (planets s ! i)\<lparr>speed := baseSpeed (planets s ! i) * multiplier\<rparr>]\<rparr>
      else s)"

text \<open>What the ray caster returns first: the Sun's mesh or the mesh of a planet.\<close>

datatype hit = HitSun | HitPlanet nat

definition checkPlanetClick :: "hit option \<Rightarrow> state \<Rightarrow> state" where
  "checkPlanetClick h s =
     (case h of
        None \<Rightarrow> s
      | Some HitSun \<Rightarrow> focusOnSun s
      | Some (HitPlanet i) \<Rightarrow> if i < length (planets s) then focusOnPlanet i s else s)"

subsection \<open>Pointer input\<close>

definition onMouseDown :: "real \<Rightarrow> real \<Rightarrow> state \<Rightarrow> state" where
  "onMouseDown clientX clientY s =
     s\<lparr>ctl := (ctl s)\<lparr>isMouseDown := True, mouseX := clientX, mouseY := clientY\<rparr>\<rparr>"

text \<open>The drag branch shared by \<open>onMouseMove\<close> and \<open>onTouchMove\<close>.\<close>

definition drag :: "real \<Rightarrow> real \<Rightarrow> state \<Rightarrow> state" where
  "drag clientX clientY s =
     (let c = ctl s;
          deltaX = clientX - mouseX c;
          deltaY = clientY - mouseY c;
          theta = spherical_theta c - deltaX * c_rotationSpeed c;
          phi = spherical_phi c + deltaY * c_rotationSpeed c;
          s1 = s\<lparr>ctl := c\<lparr>spherical_theta := theta,
                            spherical_phi := max 0.1 (min (pi - 0.1) phi),
                            mouseX := clientX, mouseY := clientY\<rparr>\<rparr>
      in if \<not> cameraFollowMode s1 then updateCameraFromControls s1 else s1)"

text \<open>\<open>onMouseMove\<close>: with the button up the handler only shows or hides the tooltip.\<close>

definition onMouseMove :: "real \<Rightarrow> real \<Rightarrow> state \<Rightarrow> state" where
  "onMouseMove clientX clientY s =
     (if isMouseDown (ctl s) then drag clientX clientY s else s)"

definition onMouseUp :: "state \<Rightarrow> state" where
  "onMouseUp s = s\<lparr>ctl := (ctl s)\<lparr>isMouseDown := False\<rparr>\<rparr>"

definition onMouseWheel :: "real \<Rightarrow> state \<Rightarrow> state" where
  "onMouseWheel deltaY s =
     (let c = ctl s;
          scale = (if deltaY > 0 then 1.1 else 0.9);
          r = spherical_radius c * scale;
          s1 = s\<lparr>ctl := c\<lparr>spherical_radius := max (minDistance c) (min (maxDistance c) r)\<rparr>\<rparr>
      in if \<not> cameraFollowMode s1 then updateCameraFromControls s1 else s1)"

text \<open>The touch handlers; \<open>n\<close> is \<open>event.touches.length\<close>. On \<open>touchend\<close> the listener
  \<open>onTouchEnd\<close> runs first, then the tap listener, which reads
  \<open>event.changedTouches.length\<close> (the \<open>n\<close> of \<open>touchend\<close>) and the flag the first
  listener has just cleared.\<close>

definition onTouchStart :: "nat \<Rightarrow> real \<Rightarrow> real \<Rightarrow> state \<Rightarrow> state" where
  "onTouchStart n clientX clientY s =
     (if n = 1 then s\<lparr>ctl := (ctl s)\<lparr>isMouseDown := True, mouseX := clientX, mouseY := clientY\<rparr>\<rparr>
      else s)"

definition onTouchMove :: "nat \<Rightarrow> real \<Rightarrow> real \<Rightarrow> state \<Rightarrow> state" where
  "onTouchMove n clientX clientY s =
     (if n = 1 \<and> isMouseDown (ctl s) then drag clientX clientY s else s)"

definition touchend :: "nat \<Rightarrow> hit option \<Rightarrow> state \<Rightarrow> state" where
  "touchend n h s =
     (let s1 = onMouseUp s in
      if n = 1 \<and> \<not> isMouseDown (ctl s1) then checkPlanetClick h s1 else s1)"

text \<open>\<open>onWindowResize\<close> replaces the star field by a new, unrotated one.\<close>

definition onWindowResize :: "state \<Rightarrow> state" where
  "onWindowResize s = s\<lparr>stars := map_option (\<lambda>_. 0) (stars s)\<rparr>"

subsection \<open>The event loop\<close>

datatype event =
    Frame real
  | MouseDown real real
  | MouseMove real real
  | MouseUp
  | MouseWheel real
  | MouseClick "hit option"
  | TouchStart nat real real
  | TouchMove nat real real
  | TouchEnd nat "hit option"
  | SliderInput nat real
  | PauseClick
  | ResetClick
  | CloseInfoClick
  | Resize

fun dispatch :: "event \<Rightarrow> state \<Rightarrow> state" where
  "dispatch (Frame t) s = animate t s"
| "dispatch (MouseDown a b) s = onMouseDown a b s"
| "dispatch (MouseMove a b) s = onMouseMove a b s"
| "dispatch MouseUp s = onMouseUp s"
| "dispatch (MouseWheel d) s = onMouseWheel d s"
| "dispatch (MouseClick h) s = checkPlanetClick h s"
| "dispatch (TouchStart n a b) s = onTouchStart n a b s"
| "dispatch (TouchMove n a b) s = onTouchMove n a b s"
| "dispatch (TouchEnd n h) s = touchend n h s"
| "dispatch (SliderInput i m) s = slider_input i m s"
| "dispatch PauseClick s = pauseBtn_click s"
| "dispatch ResetClick s = resetBtn_click s"
| "dispatch CloseInfoClick s = closeInfo_click s"
| "dispatch Resize s = onWindowResize s"

text \<open>The events in the order the browser delivers them. The tween engine's own
  updates are not among them: they write the camera's position and orientation and
  nothing else.\<close>

fun run :: "event list \<Rightarrow> state \<Rightarrow> state" where
  "run [] s = s"
| "run (e # es) s = run es (dispatch e s)"

text \<open>\<open>init\<close> ends with the first call of \<open>animate\<close>, before any event can be
  delivered; \<open>t0\<close> is the clock's first reading.\<close>

definition init :: "real \<Rightarrow> state" where
  "init t0 = animate t0 created_state"

text \<open>\<open>n\<close> frames in a row, with the clock readings \<open>ts\<close>.\<close>

fun frames :: "real list \<Rightarrow> state \<Rightarrow> state" where
  "frames [] s = s"
| "frames (t # ts) s = frames ts (animate t s)"

subsection \<open>Derived notions\<close>

text \<open>A planet is on its orbit when its mesh sits at the point of the circle that its
  angle names.\<close>

definition onOrbit :: "planet \<Rightarrow> bool" where
  "onOrbit p \<longleftrightarrow>
     mesh_position p = Vector3 (cos (angle p) * orbitRadius p) 0 (sin (angle p) * orbitRadius p)
     \<and> 0 \<le> orbitRadius p"

text \<open>How the script's three focus fields hang together: follow mode is on exactly when
  a planet is referenced; a referenced planet is in the registry and the panel is open
  and shows its name; an open panel without a referenced planet shows the Sun.\<close>

definition focus_inv :: "state \<Rightarrow> bool" where
  "focus_inv s \<longleftrightarrow>
     (cameraFollowMode s \<longleftrightarrow> currentFocusedPlanet s \<noteq> None)
     \<and> (case currentFocusedPlanet s of
          None \<Rightarrow> planetInfo_active s \<longrightarrow> planetInfo_name s = ''Sun''
        | Some i \<Rightarrow> planetInfo_active s \<and> i < length (planets s)
                     \<and> planetInfo_name s = name (planets s ! i))"

text \<open>An example state: the registry as created, paused, Mercury selected, the camera
  at \<open>c\<close>.\<close>

definition mercury_followed :: "vec3 \<Rightarrow> state" where
  "mercury_followed c =
     (focusOnPlanet 0 created_state)\<lparr>isPaused := True,
        cam := \<lparr>position = c, lookAt = Vector3 8 0 0\<rparr>\<rparr>"

text \<open>Modelled from the spec: the lookup of a body by name that \<open>setSpeedMultiplier\<close>
  needs. The script has no such lookup; every slider that \<open>setupSpeedControls\<close> creates
  carries its planet's name as its label, so the name is looked up among the labels, the
  first slider winning if several share one.\<close>

definition findSlider :: "string \<Rightarrow> state \<Rightarrow> nat option" where
  "findSlider nm s = List.find (\<lambda>i. name (planets s ! i) = nm) [0..<length (planets s)]"

text \<open>Modelled from the spec: \<open>setSpeedMultiplier(name, value)\<close>. The script has no
  entry point that takes a body's name: its only speed control is the slider listener
  created per planet (\<open>slider_input\<close> above). The request is modelled as the \<open>input\<close>
  event of the slider labelled \<open>name\<close>; a name that labels no slider reaches no
  listener.\<close>

definition setSpeedMultiplier :: "string \<Rightarrow> real \<Rightarrow> state \<Rightarrow> state" where
  "setSpeedMultiplier nm v s =
     (case findSlider nm s of None \<Rightarrow> s | Some i \<Rightarrow> slider_input i v s)"

section \<open>The registry\<close>

lemma planets_createSun [simp]: "planets (createSun s) = planets s"
  by (simp add: createSun_def)

lemma planets_createPlanet_length:
  "length (planets (createPlanet d k s)) = Suc (length (planets s))"
  by (simp add: createPlanet_def)

lemma forEach_createPlanet_length:
  "length (planets (forEach_createPlanet ds k s)) = length (planets s) + length ds"
  by (induction ds arbitrary: k s) (simp_all add: planets_createPlanet_length)

text \<open>Pushing further planets leaves the ones already in the registry alone.\<close>

lemma forEach_createPlanet_old:
  "i < length (planets s) \<Longrightarrow> planets (forEach_createPlanet ds k s) ! i = planets s ! i"
proof (induction ds arbitrary: k s)
  case Nil
  then show ?case by simp
next
  case (Cons d ds)
  have "planets (forEach_createPlanet ds (Suc k) (createPlanet d k s)) ! i
        = planets (createPlanet d k s) ! i"
    using Cons.prems by (intro Cons.IH) (simp add: planets_createPlanet_length)
  also have "\<dots> = planets s ! i"
    using Cons.prems by (simp add: createPlanet_def nth_append)
  finally show ?case by simp
qed

text \<open>The \<open>i\<close>-th descriptor becomes the planet that \<open>createPlanet\<close> builds from it with
  the index \<open>k + i\<close>.\<close>

lemma forEach_createPlanet_new:
  "i < length ds \<Longrightarrow>
   planets (forEach_createPlanet ds k s) ! (length (planets s) + i)
     = last (planets (createPlanet (ds ! i) (k + i) s))"
proof (induction ds arbitrary: k s i)
  case Nil
  then show ?case by simp
next
  case (Cons d ds)
  show ?case
  proof (cases i)
    case 0
    have "planets (forEach_createPlanet ds (Suc k) (createPlanet d k s)) ! length (planets s)
          = planets (createPlanet d k s) ! length (planets s)"
      by (intro forEach_createPlanet_old) (simp add: planets_createPlanet_length)
    then show ?thesis using 0 by (simp add: createPlanet_def)
  next
    case (Suc j)
    then have j: "j < length ds" using Cons.prems by simp
    have "planets (forEach_createPlanet ds (Suc k) (createPlanet d k s))
            ! (length (planets (createPlanet d k s)) + j)
          = last (planets (createPlanet (ds ! j) (Suc k + j) (createPlanet d k s)))"
      by (rule Cons.IH [OF j])
    then show ?thesis using Suc by (simp add: createPlanet_def)
  qed
qed

text \<open>The loop writes no field but \<open>planets\<close>.\<close>

lemma forEach_createPlanet_only_planets:
  "forEach_createPlanet ds k s = s\<lparr>planets := planets (forEach_createPlanet ds k s)\<rparr>"
proof (induction ds arbitrary: k s)
  case Nil
  show ?case by simp
next
  case (Cons d ds)
  have "forEach_createPlanet ds (Suc k) (createPlanet d k s)
        = (createPlanet d k s)\<lparr>planets := planets (forEach_createPlanet ds (Suc k) (createPlanet d k s))\<rparr>"
    by (rule Cons.IH)
  then show ?case by (simp add: createPlanet_def)
qed

lemma planets_setup_state: "planets setup_state = []"
  by (simp add: setup_state_def updateCameraFromControls_def)

lemma ctl_setup:
  "ctl setup_state = \<lparr>isMouseDown = False, mouseX = 0, mouseY = 0, c_rotationSpeed = 0.005,
             minDistance = 10, maxDistance = 200,
             spherical_radius = 50, spherical_phi = pi / 3, spherical_theta = 0,
             target = Vector3 0 0 0\<rparr>"
  by (simp add: setup_state_def updateCameraFromControls_def)

subsection \<open>The registry of the eight authored planets\<close>

lemma created_state_planets:
  "planets created_state =
     map (\<lambda>(d, k). \<lparr>name = d_name d,
          mesh_position = \<lparr>vx = d_orbitRadius d, vy = 0, vz = 0\<rparr>,
          mesh_rotation_y = 0,
          mesh_radius = d_radius d,
          orbitRadius = d_orbitRadius d,
          angle = (real k * pi * 2) / 8,
          speed = d_speed d,
          baseSpeed = d_speed d,
          rotationSpeed = d_rotationSpeed d,
          material_time = createMaterial (d_name d)\<rparr>) (zip planetData [0..<8])"
  by (simp add: created_state_def createSolarSystem_def planetData_def createPlanet_def
        createSun_def planets_setup_state upt_rec)

lemma created_state_length: "length (planets created_state) = 8"
  by (simp add: created_state_planets planetData_def)

lemma created_state_eq:
  "created_state = setup_state\<lparr>sun := Some \<lparr>sun_rotation_y = 0, sun_time = 0\<rparr>,
                                planets := planets created_state\<rparr>"
proof -
  have "created_state = (createSun setup_state)\<lparr>planets := planets created_state\<rparr>"
    unfolding created_state_def createSolarSystem_def
    by (rule forEach_createPlanet_only_planets)
  then show ?thesis by (simp add: createSun_def)
qed

lemma created_state_flags:
  "\<not> isPaused created_state" "globalSpeedMultiplier created_state = 1"
  "currentFocusedPlanet created_state = None" "\<not> cameraFollowMode created_state"
  "\<not> planetInfo_active created_state"
  by (subst created_state_eq, simp add: setup_state_def updateCameraFromControls_def)+

lemma created_state_ctl:
  "ctl created_state = ctl setup_state" "cam created_state = cam setup_state"
  "tweens created_state = []"
  by (subst created_state_eq, simp add: setup_state_def updateCameraFromControls_def)+

lemma created_state_sun: "sun created_state = Some \<lparr>sun_rotation_y = 0, sun_time = 0\<rparr>"
  by (subst created_state_eq) simp

lemma mercury_created:
  "planets created_state ! 0 =
     \<lparr>name = ''Mercury'', mesh_position = \<lparr>vx = 8, vy = 0, vz = 0\<rparr>, mesh_rotation_y = 0,
      mesh_radius = 1.2, orbitRadius = 8, angle = 0, speed = 0.003, baseSpeed = 0.003,
      rotationSpeed = 0.0003, material_time = Some 0\<rparr>"
  by (simp add: created_state_planets planetData_def upt_rec createMaterial_def)

lemma earth_created:
  "planets created_state ! 2 =
     \<lparr>name = ''Earth'', mesh_position = \<lparr>vx = 16, vy = 0, vz = 0\<rparr>, mesh_rotation_y = 0,
      mesh_radius = 2, orbitRadius = 16, angle = pi / 2, speed = 0.008, baseSpeed = 0.008,
      rotationSpeed = 0.01, material_time = Some 0\<rparr>"
  by (simp add: created_state_planets planetData_def upt_rec createMaterial_def)

lemma mercury_position: "mesh_position (planets created_state ! 0) = Vector3 8 0 0"
  by (simp add: mercury_created Vector3_def)

lemma mercury_target:
  "targetCameraPosition (planets created_state ! 0) = Vector3 12.8 3 6"
  by (simp add: mercury_created targetCameraPosition_def cameraOffset_def Let_def
        applyRotationY_def add_def Vector3_def)

section \<open>The frame\<close>

lemma followCamera_fields [simp]:
  "planets (followCamera s) = planets s" "sun (followCamera s) = sun s"
  "stars (followCamera s) = stars s" "isPaused (followCamera s) = isPaused s"
  "globalSpeedMultiplier (followCamera s) = globalSpeedMultiplier s"
  "cameraFollowMode (followCamera s) = cameraFollowMode s"
  "currentFocusedPlanet (followCamera s) = currentFocusedPlanet s"
  "planetInfo_active (followCamera s) = planetInfo_active s"
  "planetInfo_name (followCamera s) = planetInfo_name s"
  "ctl (followCamera s) = ctl s" "tweens (followCamera s) = tweens s"
  by (simp_all add: followCamera_def Let_def split: option.splits)

lemma updateBodies_fields [simp]:
  "isPaused (updateBodies t s) = isPaused s"
  "globalSpeedMultiplier (updateBodies t s) = globalSpeedMultiplier s"
  "cameraFollowMode (updateBodies t s) = cameraFollowMode s"
  "currentFocusedPlanet (updateBodies t s) = currentFocusedPlanet s"
  "planetInfo_active (updateBodies t s) = planetInfo_active s"
  "planetInfo_name (updateBodies t s) = planetInfo_name s"
  "cam (updateBodies t s) = cam s"
  "ctl (updateBodies t s) = ctl s" "tweens (updateBodies t s) = tweens s"
  "planets (updateBodies t s) = map (updatePlanet t (globalSpeedMultiplier s)) (planets s)"
  by (simp_all add: updateBodies_def)

lemma animate_fields [simp]:
  "isPaused (animate t s) = isPaused s"
  "globalSpeedMultiplier (animate t s) = globalSpeedMultiplier s"
  "cameraFollowMode (animate t s) = cameraFollowMode s"
  "currentFocusedPlanet (animate t s) = currentFocusedPlanet s"
  "planetInfo_active (animate t s) = planetInfo_active s"
  "planetInfo_name (animate t s) = planetInfo_name s"
  "ctl (animate t s) = ctl s" "tweens (animate t s) = tweens s"
  by (simp_all add: animate_def)

lemma animate_planets:
  "planets (animate t s) =
     (if isPaused s then planets s else map (updatePlanet t (globalSpeedMultiplier s)) (planets s))"
  by (simp add: animate_def)

lemma animate_length [simp]: "length (planets (animate t s)) = length (planets s)"
  by (simp add: animate_planets)

lemma updatePlanet_fields [simp]:
  "angle (updatePlanet t g p) = angle p + speed p * g"
  "speed (updatePlanet t g p) = speed p"
  "baseSpeed (updatePlanet t g p) = baseSpeed p"
  "orbitRadius (updatePlanet t g p) = orbitRadius p"
  "rotationSpeed (updatePlanet t g p) = rotationSpeed p"
  "mesh_radius (updatePlanet t g p) = mesh_radius p"
  "name (updatePlanet t g p) = name p"
  "mesh_rotation_y (updatePlanet t g p) = mesh_rotation_y p + rotationSpeed p"
  "material_time (updatePlanet t g p) = map_option (\<lambda>_. t) (material_time p)"
  by (simp_all add: updatePlanet_def Let_def)

lemma frames_fields [simp]:
  "isPaused (frames ts s) = isPaused s"
  "globalSpeedMultiplier (frames ts s) = globalSpeedMultiplier s"
  "length (planets (frames ts s)) = length (planets s)"
  "cameraFollowMode (frames ts s) = cameraFollowMode s"
  "currentFocusedPlanet (frames ts s) = currentFocusedPlanet s"
  by (induction ts arbitrary: s) simp_all

lemma init_length: "length (planets (init t0)) = 8"
  by (simp add: init_def created_state_length)

lemma init_ctl: "ctl (init t0) = ctl setup_state"
  by (simp add: init_def created_state_ctl)

text \<open>Unpaused frames add the same step to the angle each time and leave the speed alone.\<close>

lemma frames_unpaused:
  assumes "\<not> isPaused s" and "i < length (planets s)"
  shows "speed (planets (frames ts s) ! i) = speed (planets s ! i)
       \<and> angle (planets (frames ts s) ! i)
           = angle (planets s ! i) + real (length ts) * (speed (planets s ! i) * globalSpeedMultiplier s)"
  using assms
proof (induction ts arbitrary: s)
  case Nil
  then show ?case by simp
next
  case (Cons t ts)
  let ?s1 = "animate t s"
  have p1: "planets ?s1 ! i = updatePlanet t (globalSpeedMultiplier s) (planets s ! i)"
    using Cons.prems by (simp add: animate_planets)
  have "\<not> isPaused ?s1" "i < length (planets ?s1)" using Cons.prems by simp_all
  from Cons.IH [OF this] show ?case
    by (simp add: p1 algebra_simps)
qed

text \<open>Paused frames leave the Sun, the planets and the stars alone.\<close>

lemma animate_paused_bodies:
  "isPaused s \<Longrightarrow>
   planets (animate t s) = planets s \<and> sun (animate t s) = sun s \<and> stars (animate t s) = stars s"
  by (simp add: animate_def)

lemma frames_paused_bodies:
  "isPaused s \<Longrightarrow>
   planets (frames ts s) = planets s \<and> sun (frames ts s) = sun s \<and> stars (frames ts s) = stars s"
proof (induction ts arbitrary: s)
  case Nil
  then show ?case by simp
next
  case (Cons t ts)
  have "isPaused (animate t s)" using Cons.prems by simp
  from Cons.IH [OF this] show ?case using Cons.prems by (simp add: animate_paused_bodies)
qed

subsection \<open>The follow block\<close>

lemma lerp_fixed: "alpha \<noteq> 0 \<Longrightarrow> lerp u v alpha = u \<longleftrightarrow> u = v"
  by (cases u, cases v) (auto simp add: lerp_def)




lemma mercury_followed_fields:
  "isPaused (mercury_followed c)" "cameraFollowMode (mercury_followed c)"
  "currentFocusedPlanet (mercury_followed c) = Some 0"
  "planets (mercury_followed c) = planets created_state"
  "position (cam (mercury_followed c)) = c"
  by (simp_all add: mercury_followed_def focusOnPlanet_def Let_def gsap_to_def showObjectInfo_def)

section \<open>The handlers\<close>

lemma updateCameraFromControls_fields [simp]:
  "planets (updateCameraFromControls s) = planets s"
  "currentFocusedPlanet (updateCameraFromControls s) = currentFocusedPlanet s"
  "cameraFollowMode (updateCameraFromControls s) = cameraFollowMode s"
  "planetInfo_active (updateCameraFromControls s) = planetInfo_active s"
  "planetInfo_name (updateCameraFromControls s) = planetInfo_name s"
  "ctl (updateCameraFromControls s) = ctl s"
  by (simp_all add: updateCameraFromControls_def)

lemma drag_fields [simp]:
  "planets (drag a b s) = planets s"
  "currentFocusedPlanet (drag a b s) = currentFocusedPlanet s"
  "cameraFollowMode (drag a b s) = cameraFollowMode s"
  "planetInfo_active (drag a b s) = planetInfo_active s"
  "planetInfo_name (drag a b s) = planetInfo_name s"
  by (simp_all add: drag_def Let_def)

lemma onMouseWheel_fields [simp]:
  "planets (onMouseWheel d s) = planets s"
  "currentFocusedPlanet (onMouseWheel d s) = currentFocusedPlanet s"
  "cameraFollowMode (onMouseWheel d s) = cameraFollowMode s"
  "planetInfo_active (onMouseWheel d s) = planetInfo_active s"
  "planetInfo_name (onMouseWheel d s) = planetInfo_name s"
  by (simp_all add: onMouseWheel_def Let_def)

lemma pointer_fields [simp]:
  "planets (onMouseDown a b s) = planets s"
  "currentFocusedPlanet (onMouseDown a b s) = currentFocusedPlanet s"
  "cameraFollowMode (onMouseDown a b s) = cameraFollowMode s"
  "planetInfo_active (onMouseDown a b s) = planetInfo_active s"
  "planetInfo_name (onMouseDown a b s) = planetInfo_name s"
  "planets (onMouseUp s) = planets s"
  "currentFocusedPlanet (onMouseUp s) = currentFocusedPlanet s"
  "cameraFollowMode (onMouseUp s) = cameraFollowMode s"
  "planetInfo_active (onMouseUp s) = planetInfo_active s"
  "planetInfo_name (onMouseUp s) = planetInfo_name s"
  "planets (onTouchStart n a b s) = planets s"
  "currentFocusedPlanet (onTouchStart n a b s) = currentFocusedPlanet s"
  "cameraFollowMode (onTouchStart n a b s) = cameraFollowMode s"
  "planetInfo_active (onTouchStart n a b s) = planetInfo_active s"
  "planetInfo_name (onTouchStart n a b s) = planetInfo_name s"
  "planets (onWindowResize s) = planets s"
  "currentFocusedPlanet (onWindowResize s) = currentFocusedPlanet s"
  "cameraFollowMode (onWindowResize s) = cameraFollowMode s"
  "planetInfo_active (onWindowResize s) = planetInfo_active s"
  "planetInfo_name (onWindowResize s) = planetInfo_name s"
  "planets (pauseBtn_click s) = planets s"
  "currentFocusedPlanet (pauseBtn_click s) = currentFocusedPlanet s"
  "cameraFollowMode (pauseBtn_click s) = cameraFollowMode s"
  "planetInfo_active (pauseBtn_click s) = planetInfo_active s"
  "planetInfo_name (pauseBtn_click s) = planetInfo_name s"
  by (simp_all add: onMouseDown_def onMouseUp_def onTouchStart_def onWindowResize_def
        pauseBtn_click_def)

lemma focus_fields [simp]:
  "planets (focusOnSun s) = planets s"
  "currentFocusedPlanet (focusOnSun s) = None"
  "cameraFollowMode (focusOnSun s) = False"
  "planetInfo_active (focusOnSun s) = True"
  "planetInfo_name (focusOnSun s) = ''Sun''"
  "ctl (focusOnSun s) = ctl s" "cam (focusOnSun s) = cam s"
  "planets (focusOnPlanet i s) = planets s"
  "currentFocusedPlanet (focusOnPlanet i s) = Some i"
  "cameraFollowMode (focusOnPlanet i s) = True"
  "planetInfo_active (focusOnPlanet i s) = True"
  "planetInfo_name (focusOnPlanet i s) = name (planets s ! i)"
  "ctl (focusOnPlanet i s) = ctl s" "cam (focusOnPlanet i s) = cam s"
  by (simp_all add: focusOnSun_def focusOnPlanet_def gsap_to_def showObjectInfo_def Let_def)

lemma reset_fields [simp]:
  "planets (resetCameraView s) = planets s"
  "currentFocusedPlanet (resetCameraView s) = None"
  "cameraFollowMode (resetCameraView s) = False"
  "planetInfo_active (resetCameraView s) = planetInfo_active s"
  "planetInfo_name (resetCameraView s) = planetInfo_name s"
  "planets (resetBtn_click s) = planets s"
  "currentFocusedPlanet (resetBtn_click s) = None"
  "cameraFollowMode (resetBtn_click s) = False"
  "planetInfo_active (resetBtn_click s) = False"
  "planets (closeInfo_click s) = planets s"
  "currentFocusedPlanet (closeInfo_click s) = None"
  "cameraFollowMode (closeInfo_click s) = False"
  "planetInfo_active (closeInfo_click s) = False"
  by (simp_all add: resetCameraView_def resetBtn_click_def closeInfo_click_def gsap_to_def)

lemma slider_input_fields [simp]:
  "isPaused (slider_input i m s) = isPaused s"
  "globalSpeedMultiplier (slider_input i m s) = globalSpeedMultiplier s"
  "length (planets (slider_input i m s)) = length (planets s)"
  "currentFocusedPlanet (slider_input i m s) = currentFocusedPlanet s"
  "cameraFollowMode (slider_input i m s) = cameraFollowMode s"
  "planetInfo_active (slider_input i m s) = planetInfo_active s"
  "planetInfo_name (slider_input i m s) = planetInfo_name s"
  by (simp_all add: slider_input_def)

lemma checkPlanetClick_planets [simp]: "planets (checkPlanetClick h s) = planets s"
  by (simp add: checkPlanetClick_def split: option.splits hit.splits)

section \<open>Invariants of the event loop\<close>

subsection \<open>Planets stay on their orbits\<close>

lemma updatePlanet_onOrbit:
  "vy (mesh_position p) = 0 \<Longrightarrow> 0 \<le> orbitRadius p \<Longrightarrow> onOrbit (updatePlanet t g p)"
  by (cases "mesh_position p") (simp add: onOrbit_def updatePlanet_def Let_def Vector3_def)

lemma onOrbit_updatePlanet: "onOrbit p \<Longrightarrow> onOrbit (updatePlanet t g p)"
  by (rule updatePlanet_onOrbit) (simp_all add: onOrbit_def Vector3_def)

lemma onOrbit_speed: "onOrbit (p\<lparr>speed := v\<rparr>) = onOrbit p"
  by (simp add: onOrbit_def)

lemma dispatch_onOrbit:
  assumes "\<forall>p \<in> set (planets s). onOrbit p"
  shows "\<forall>p \<in> set (planets (dispatch e s)). onOrbit p"
proof (cases e)
  case (Frame t)
  then show ?thesis using assms by (auto simp add: animate_planets onOrbit_updatePlanet)
next
  case (SliderInput i m)
  show ?thesis
  proof
    fix p assume "p \<in> set (planets (dispatch e s))"
    then have "p \<in> set (planets s)
               \<or> (i < length (planets s)
                  \<and> p = (planets s ! i)\<lparr>speed := baseSpeed (planets s ! i) * m\<rparr>)"
      using SliderInput
      by (auto simp add: slider_input_def dest: set_update_subset_insert [THEN subsetD]
            split: if_splits)
    then show "onOrbit p" using assms by (auto simp add: onOrbit_speed)
  qed
qed (use assms in \<open>simp_all add: onMouseMove_def onTouchMove_def touchend_def Let_def\<close>)

lemma run_onOrbit:
  "\<forall>p \<in> set (planets s). onOrbit p \<Longrightarrow> \<forall>p \<in> set (planets (run es s)). onOrbit p"
proof (induction es arbitrary: s)
  case Nil
  then show ?case by simp
next
  case (Cons e es)
  show ?case using Cons.IH [OF dispatch_onOrbit [OF Cons.prems]] by simp
qed

text \<open>The first frame, which \<open>init\<close> runs itself, puts every planet on its orbit.\<close>

lemma init_onOrbit: "\<forall>p \<in> set (planets (init t0)). onOrbit p"
proof -
  have "\<forall>p \<in> set (planets created_state). vy (mesh_position p) = 0 \<and> 0 \<le> orbitRadius p"
    by (simp add: created_state_planets planetData_def upt_rec)
  then show ?thesis
    by (auto simp add: init_def animate_planets created_state_flags updatePlanet_onOrbit)
qed

lemma onOrbit_distance:
  assumes "onOrbit p"
  shows "distanceTo (mesh_position p) (Vector3 0 0 0) = orbitRadius p"
proof -
  have "(cos (angle p) * orbitRadius p)\<^sup>2 + (sin (angle p) * orbitRadius p)\<^sup>2
        = (orbitRadius p)\<^sup>2 * ((cos (angle p))\<^sup>2 + (sin (angle p))\<^sup>2)"
    by (simp only: power_mult_distrib distrib_left mult.commute)
  also have "\<dots> = (orbitRadius p)\<^sup>2" by (simp only: sin_cos_squared_add2 mult_1_right)
  finally have "(cos (angle p) * orbitRadius p)\<^sup>2 + (sin (angle p) * orbitRadius p)\<^sup>2
        = (orbitRadius p)\<^sup>2" .
  then show ?thesis
    using assms by (simp add: onOrbit_def distanceTo_def distanceToSquared_def Vector3_def)
qed

subsection \<open>The focus fields\<close>

lemma focus_inv_init: "focus_inv (init t0)"
  by (simp add: focus_inv_def init_def created_state_flags)

lemma focus_inv_checkPlanetClick: "focus_inv s \<Longrightarrow> focus_inv (checkPlanetClick h s)"
  by (simp add: checkPlanetClick_def focus_inv_def split: option.splits hit.splits)

lemma focus_inv_dispatch:
  assumes "focus_inv s"
  shows "focus_inv (dispatch e s)"
proof (cases e)
  case (Frame t)
  then show ?thesis using assms
    by (auto simp add: focus_inv_def animate_planets split: option.splits)
next
  case (MouseClick h)
  then show ?thesis using assms by (simp add: focus_inv_checkPlanetClick)
next
  case (TouchEnd n h)
  have "focus_inv (onMouseUp s)" using assms by (simp add: focus_inv_def split: option.splits)
  then show ?thesis using TouchEnd
    by (simp add: touchend_def Let_def focus_inv_checkPlanetClick)
next
  case (SliderInput i m)
  then show ?thesis using assms
    by (auto simp add: focus_inv_def slider_input_def nth_list_update split: option.splits)
qed (use assms in \<open>simp_all add: focus_inv_def onMouseMove_def onTouchMove_def
       split: option.splits\<close>)

lemma focus_inv_run: "focus_inv s \<Longrightarrow> focus_inv (run es s)"
  by (induction es arbitrary: s) (simp_all add: focus_inv_dispatch)

subsection \<open>Sliders by label\<close>

lemma findSlider_None: "findSlider nm s = None \<longleftrightarrow> nm \<notin> set (map name (planets s))"
proof -
  have "nm \<in> name ` set (planets s) \<longleftrightarrow> (\<exists>i<length (planets s). name (planets s ! i) = nm)"
    by (metis in_set_conv_nth imageE image_eqI)
  then show ?thesis
    by (auto simp add: findSlider_def find_None_iff)
qed

lemma findSlider_first:
  assumes "i < length (planets s)" and "name (planets s ! i) = nm"
    and "\<forall>j<i. name (planets s ! j) \<noteq> nm"
  shows "findSlider nm s = Some i"
  using assms by (auto simp add: findSlider_def find_Some_iff intro!: exI [of _ i])

section \<open>The claims\<close>

subsection \<open>C1: the orbital angle after \<open>n\<close> unpaused frames\<close>

text \<open>
  Claim C1. Let the simulation be unpaused and let the slider of the planet of index \<open>i\<close>
  be set to the multiplier \<open>m\<close>, which replaces the planet's speed by \<open>baseSpeed * m\<close>.
  After any number of frames the planet's orbital angle is its initial angle plus
  (number of frames) * \<open>baseSpeed\<close> * \<open>m\<close> * \<open>globalSpeedMultiplier\<close>. The equation holds
  exactly, hence also modulo a full turn.
\<close>

theorem orbital_angle_after_frames:
  assumes "\<not> isPaused s" and "i < length (planets s)"
  shows "angle (planets (frames ts (slider_input i m s)) ! i)
         = angle (planets s ! i)
           + real (length ts) * baseSpeed (planets s ! i) * m * globalSpeedMultiplier s"
proof -
  let ?s1 = "slider_input i m s"
  have "\<not> isPaused ?s1" "i < length (planets ?s1)" using assms by simp_all
  from frames_unpaused [OF this, of ts] show ?thesis
    using assms(2) by (simp add: slider_input_def)
qed

text \<open>Instance: Earth (base speed 0.008, created at a quarter turn) at multiplier 2,
  three frames.\<close>

theorem orbital_angle_after_frames_witness:
  "\<not> isPaused created_state \<and> (2::nat) < length (planets created_state)
   \<and> angle (planets (frames [0.016, 0.033, 0.05] (slider_input 2 2 created_state)) ! 2)
       = (2 * pi * 2) / 8 + 3 * 0.008 * 2 * 1"
  using orbital_angle_after_frames [of created_state 2 "[0.016, 0.033, 0.05]" 2]
  by (simp add: created_state_flags created_state_planets planetData_def upt_rec)

subsection \<open>C2: the position on the orbit\<close>

text \<open>
  Claim C2, as amended. Once \<open>init\<close> has run its first frame, and after every event and
  every frame from then on, every planet's mesh sits at
  \<open>(cos angle * orbitRadius, 0, sin angle * orbitRadius)\<close>, at the distance \<open>orbitRadius\<close>
  from the origin. (Between the creation of the registry and that first frame the
  equation does not hold; see below.)
\<close>

theorem position_on_orbit_after_first_frame:
  "\<forall>p \<in> set (planets (run es (init t0))).
     mesh_position p = Vector3 (cos (angle p) * orbitRadius p) 0 (sin (angle p) * orbitRadius p)
     \<and> distanceTo (mesh_position p) (Vector3 0 0 0) = orbitRadius p"
  using run_onOrbit [OF init_onOrbit, of es t0] onOrbit_distance
  by (auto simp add: onOrbit_def)

text \<open>Instance: Earth after a paused frame, an unpaused frame and a slider change.\<close>

theorem position_on_orbit_after_first_frame_witness:
  "planets (run [PauseClick, Frame 1, PauseClick, Frame 2, SliderInput 2 3] (init 0)) ! 2
     \<in> set (planets (run [PauseClick, Frame 1, PauseClick, Frame 2, SliderInput 2 3] (init 0)))
   \<and> angle (planets (run [PauseClick, Frame 1, PauseClick, Frame 2, SliderInput 2 3] (init 0)) ! 2)
       = pi / 2 + 0.016
   \<and> mesh_position (planets (run [PauseClick, Frame 1, PauseClick, Frame 2, SliderInput 2 3] (init 0)) ! 2)
       = Vector3 (cos (pi / 2 + 0.016) * 16) 0 (sin (pi / 2 + 0.016) * 16)
   \<and> distanceTo (mesh_position (planets (run [PauseClick, Frame 1, PauseClick, Frame 2, SliderInput 2 3] (init 0)) ! 2))
         (Vector3 0 0 0) = 16"
proof -
  let ?s = "run [PauseClick, Frame 1, PauseClick, Frame 2, SliderInput 2 3] (init 0)"
  have l: "length (planets ?s) = 8"
    by (simp add: init_length pauseBtn_click_def)
  have m: "planets ?s ! 2 \<in> set (planets ?s)"
    using l by (intro nth_mem) simp
  have a: "angle (planets ?s ! 2) = pi / 2 + 0.016" "orbitRadius (planets ?s ! 2) = 16"
    by (simp_all add: slider_input_def animate_planets pauseBtn_click_def init_def
          created_state_flags created_state_length earth_created)
  note t = position_on_orbit_after_first_frame
      [of "[PauseClick, Frame 1, PauseClick, Frame 2, SliderInput 2 3]" 0, THEN bspec, OF m]
  have t1: "mesh_position (planets ?s ! 2)
            = Vector3 (cos (pi / 2 + 0.016) * 16) 0 (sin (pi / 2 + 0.016) * 16)"
    using t [THEN conjunct1] unfolding a .
  have t2: "distanceTo (mesh_position (planets ?s ! 2)) (Vector3 0 0 0) = 16"
    using t [THEN conjunct2] unfolding a .
  show ?thesis
    by (intro conjI) (rule m a(1) t1 t2)+
qed

text \<open>The claim as stated fails immediately after the creation of the registry:
  \<open>createPlanet\<close> puts every mesh at \<open>(orbitRadius, 0, 0)\<close> whatever the angle. Venus
  (index 1) is created with the angle \<open>pi / 4\<close> and sits at \<open>(12, 0, 0)\<close>.\<close>

theorem position_off_orbit_at_creation:
  "angle (planets created_state ! 1) = pi / 4
   \<and> orbitRadius (planets created_state ! 1) = 12
   \<and> mesh_position (planets created_state ! 1) = Vector3 12 0 0
   \<and> mesh_position (planets created_state ! 1)
       \<noteq> Vector3 (cos (angle (planets created_state ! 1)) * orbitRadius (planets created_state ! 1)) 0
                  (sin (angle (planets created_state ! 1)) * orbitRadius (planets created_state ! 1))"
  by (simp add: created_state_planets planetData_def upt_rec Vector3_def sin_45)

subsection \<open>C3: a paused frame\<close>

lemma animate_sun:
  "sun (animate t s) =
     (if isPaused s then sun s
      else map_option (\<lambda>m. \<lparr>sun_rotation_y = sun_rotation_y m + 0.005, sun_time = t\<rparr>) (sun s))"
  by (simp add: animate_def updateBodies_def)

lemma animate_stars:
  "stars (animate t s) = (if isPaused s then stars s else map_option (\<lambda>r. r + 0.0002) (stars s))"
  by (simp add: animate_def updateBodies_def)

lemma pauseBtn_click_bodies:
  "sun (pauseBtn_click s) = sun s" "stars (pauseBtn_click s) = stars s"
  "isPaused (pauseBtn_click s) = (\<not> isPaused s)"
  "globalSpeedMultiplier (pauseBtn_click s) = globalSpeedMultiplier s"
  by (simp_all add: pauseBtn_click_def)

lemma updatePlanet_position:
  "mesh_position (updatePlanet t g p)
   = (mesh_position p)\<lparr>vx := cos (angle p + speed p * g) * orbitRadius p,
                        vz := sin (angle p + speed p * g) * orbitRadius p\<rparr>"
  by (simp add: updatePlanet_def Let_def)

lemma init_earth:
  "planets (init t0) ! 2 = updatePlanet t0 1 (planets created_state ! 2)"
  by (simp add: init_def animate_planets created_state_flags created_state_length)

lemma init_flags: "\<not> isPaused (init t0)" "globalSpeedMultiplier (init t0) = 1"
  by (simp_all add: init_def created_state_flags)

lemma init_sun: "sun (init t0) = Some \<lparr>sun_rotation_y = 0.005, sun_time = t0\<rparr>"
  by (simp add: init_def animate_sun created_state_flags created_state_sun)

text \<open>
  Claim C3, as amended. While \<open>isPaused\<close> holds, a frame, and any number of frames, leaves
  every planet object (angle, spin, mesh position, shader time), the Sun (rotation,
  shader time) and the stars as they are. When the pause button is then clicked, the
  next frame advances the angles, the spins, the mesh positions, the Sun's rotation and
  the stars' rotation by exactly one step from the frozen values: each angle is the
  frozen angle plus \<open>speed * globalSpeedMultiplier\<close>, each spin the frozen spin plus
  \<open>rotationSpeed\<close>, each mesh is put on its orbit at the new angle. The shader times do
  not continue from their frozen values: that frame sets them to the clock's reading,
  and the clock has run on during the pause.
\<close>

theorem paused_frames_freeze_bodies:
  assumes "isPaused s" and "i < length (planets s)"
  shows "planets (animate t s) = planets s \<and> sun (animate t s) = sun s
         \<and> stars (animate t s) = stars s
         \<and> planets (frames ts s) = planets s \<and> sun (frames ts s) = sun s
         \<and> stars (frames ts s) = stars s
         \<and> planets (animate t' (pauseBtn_click (frames ts s)))
             = map (updatePlanet t' (globalSpeedMultiplier s)) (planets s)
         \<and> angle (planets (animate t' (pauseBtn_click (frames ts s))) ! i)
             = angle (planets s ! i) + speed (planets s ! i) * globalSpeedMultiplier s
         \<and> mesh_rotation_y (planets (animate t' (pauseBtn_click (frames ts s))) ! i)
             = mesh_rotation_y (planets s ! i) + rotationSpeed (planets s ! i)
         \<and> mesh_position (planets (animate t' (pauseBtn_click (frames ts s))) ! i)
             = (mesh_position (planets s ! i))
                 \<lparr>vx := cos (angle (planets s ! i) + speed (planets s ! i) * globalSpeedMultiplier s)
                          * orbitRadius (planets s ! i),
                  vz := sin (angle (planets s ! i) + speed (planets s ! i) * globalSpeedMultiplier s)
                          * orbitRadius (planets s ! i)\<rparr>
         \<and> material_time (planets (animate t' (pauseBtn_click (frames ts s))) ! i)
             = map_option (\<lambda>_. t') (material_time (planets s ! i))
         \<and> sun (animate t' (pauseBtn_click (frames ts s)))
             = map_option (\<lambda>m. \<lparr>sun_rotation_y = sun_rotation_y m + 0.005, sun_time = t'\<rparr>) (sun s)
         \<and> stars (animate t' (pauseBtn_click (frames ts s)))
             = map_option (\<lambda>r. r + 0.0002) (stars s)"
proof -
  note fr = frames_paused_bodies [OF assms(1), of ts]
  have resume: "planets (animate t' (pauseBtn_click (frames ts s)))
             = map (updatePlanet t' (globalSpeedMultiplier s)) (planets s)"
    using assms(1) fr by (simp add: animate_planets pauseBtn_click_def)
  have su: "sun (animate t' (pauseBtn_click (frames ts s)))
             = map_option (\<lambda>m. \<lparr>sun_rotation_y = sun_rotation_y m + 0.005, sun_time = t'\<rparr>) (sun s)"
    using assms(1) fr by (simp add: animate_sun pauseBtn_click_bodies)
  have st: "stars (animate t' (pauseBtn_click (frames ts s)))
             = map_option (\<lambda>r. r + 0.0002) (stars s)"
    using assms(1) fr by (simp add: animate_stars pauseBtn_click_bodies)
  show ?thesis
    using assms fr resume su st by (simp add: animate_paused_bodies updatePlanet_position)
qed

text \<open>Instance: the registry as created, paused for three frames, then resumed when the
  clock reads 4.\<close>

theorem paused_frames_freeze_bodies_witness:
  "isPaused (pauseBtn_click created_state)
   \<and> (2::nat) < length (planets (pauseBtn_click created_state))
   \<and> planets (frames [1, 2, 3] (pauseBtn_click created_state)) = planets created_state
   \<and> sun (frames [1, 2, 3] (pauseBtn_click created_state)) = Some \<lparr>sun_rotation_y = 0, sun_time = 0\<rparr>
   \<and> angle (planets (frames [1, 2, 3] (pauseBtn_click created_state)) ! 2) = pi / 2
   \<and> angle (planets (animate 4 (pauseBtn_click (frames [1, 2, 3] (pauseBtn_click created_state)))) ! 2)
       = pi / 2 + 0.008
   \<and> mesh_rotation_y (planets (animate 4 (pauseBtn_click (frames [1, 2, 3] (pauseBtn_click created_state)))) ! 2)
       = 0.01
   \<and> mesh_position (planets (animate 4 (pauseBtn_click (frames [1, 2, 3] (pauseBtn_click created_state)))) ! 2)
       = \<lparr>vx = cos (pi / 2 + 0.008) * 16, vy = 0, vz = sin (pi / 2 + 0.008) * 16\<rparr>
   \<and> material_time (planets (animate 4 (pauseBtn_click (frames [1, 2, 3] (pauseBtn_click created_state)))) ! 2)
       = Some 4
   \<and> sun (animate 4 (pauseBtn_click (frames [1, 2, 3] (pauseBtn_click created_state))))
       = Some \<lparr>sun_rotation_y = 0.005, sun_time = 4\<rparr>
   \<and> stars (animate 4 (pauseBtn_click (frames [1, 2, 3] (pauseBtn_click created_state))))
       = Some 0.0002"
proof -
  have p: "isPaused (pauseBtn_click created_state)"
    by (simp add: pauseBtn_click_def created_state_flags)
  have l: "(2::nat) < length (planets (pauseBtn_click created_state))"
    by (simp add: created_state_length)
  have st: "stars created_state = Some 0"
    by (subst created_state_eq) (simp add: setup_state_def updateCameraFromControls_def)
  show ?thesis
    using paused_frames_freeze_bodies [OF p l, of 1 "[1, 2, 3]" 4] p l
    by (simp add: earth_created created_state_sun created_state_flags pauseBtn_click_def st
          updatePlanet_position)
qed

text \<open>The claim as stated fails for the shader times. Earth's shader time and the
  Sun's are 1 when the pause begins and stay 1 through the paused frames; the frame after
  the pause ends sets them to the clock's reading, 4 after a short pause and 10 after a
  longer one that froze the very same values, where a run without the pause has 2. The
  angle, by contrast, is the same with and without the pause.\<close>

theorem shader_time_jumps_on_resume:
  "isPaused (run [Frame 1, PauseClick, Frame 2, Frame 3] (init 0))
   \<and> material_time (planets (run [Frame 1, PauseClick] (init 0)) ! 2) = Some 1
   \<and> material_time (planets (run [Frame 1, PauseClick, Frame 2, Frame 3] (init 0)) ! 2) = Some 1
   \<and> material_time (planets (run [Frame 1, PauseClick, Frame 2, Frame 3, PauseClick, Frame 4] (init 0)) ! 2)
       = Some 4
   \<and> material_time (planets (run [Frame 1, PauseClick, Frame 2, Frame 3, Frame 9, PauseClick, Frame 10] (init 0)) ! 2)
       = Some 10
   \<and> planets (run [Frame 1, PauseClick, Frame 2, Frame 3, Frame 9] (init 0))
       = planets (run [Frame 1, PauseClick, Frame 2, Frame 3] (init 0))
   \<and> map_option sun_time (sun (run [Frame 1, PauseClick, Frame 2, Frame 3] (init 0))) = Some 1
   \<and> map_option sun_time (sun (run [Frame 1, PauseClick, Frame 2, Frame 3, PauseClick, Frame 4] (init 0)))
       = Some 4
   \<and> material_time (planets (run [Frame 1, Frame 2] (init 0)) ! 2) = Some 2
   \<and> angle (planets (run [Frame 1, PauseClick, Frame 2, Frame 3, PauseClick, Frame 4] (init 0)) ! 2)
       = angle (planets (run [Frame 1, Frame 2] (init 0)) ! 2)"
  by (simp add: animate_planets animate_sun init_flags init_length init_earth init_sun
        earth_created pauseBtn_click_bodies)

subsection \<open>C4: dragging while a body is focused\<close>

text \<open>
  Claim C4, as amended. A drag event (pointer move with the button or finger held)
  processed while a planet is focused, that is in follow mode, leaves the camera's
  position and orientation and the spherical radius unchanged; the azimuth and the polar
  angle are updated from the drag all the same (\<open>theta -= dx * rotationSpeed\<close>,
  \<open>phi += dy * rotationSpeed\<close>, clamped to \<open>[0.1, pi - 0.1]\<close>). While follow mode is off,
  which includes the Sun being focused, the camera is moved to the updated parameters
  as well.
\<close>

theorem drag_while_following:
  assumes "isMouseDown (ctl s)"
  shows "(cameraFollowMode s \<longrightarrow> cam (onMouseMove x y s) = cam s)
       \<and> (\<not> cameraFollowMode s \<longrightarrow>
            cam (onMouseMove x y s) = cam (updateCameraFromControls (onMouseMove x y s)))
       \<and> spherical_radius (ctl (onMouseMove x y s)) = spherical_radius (ctl s)
       \<and> spherical_theta (ctl (onMouseMove x y s))
           = spherical_theta (ctl s) - (x - mouseX (ctl s)) * c_rotationSpeed (ctl s)
       \<and> spherical_phi (ctl (onMouseMove x y s))
           = max 0.1 (min (pi - 0.1)
               (spherical_phi (ctl s) + (y - mouseY (ctl s)) * c_rotationSpeed (ctl s)))
       \<and> onTouchMove 1 x y s = onMouseMove x y s"
  using assms
  by (simp add: onMouseMove_def onTouchMove_def drag_def Let_def updateCameraFromControls_def)

text \<open>Instance: Earth is selected, the button goes down at (100, 100) and the pointer
  moves to (110, 120).\<close>

theorem drag_while_following_witness:
  "isMouseDown (ctl (run [MouseClick (Some (HitPlanet 2)), MouseDown 100 100] (init 0)))
   \<and> cameraFollowMode (run [MouseClick (Some (HitPlanet 2)), MouseDown 100 100] (init 0))
   \<and> cam (onMouseMove 110 120 (run [MouseClick (Some (HitPlanet 2)), MouseDown 100 100] (init 0)))
       = cam (run [MouseClick (Some (HitPlanet 2)), MouseDown 100 100] (init 0))
   \<and> spherical_radius (ctl (onMouseMove 110 120 (run [MouseClick (Some (HitPlanet 2)), MouseDown 100 100] (init 0)))) = 50
   \<and> spherical_theta (ctl (onMouseMove 110 120 (run [MouseClick (Some (HitPlanet 2)), MouseDown 100 100] (init 0)))) = - 0.05
   \<and> spherical_phi (ctl (onMouseMove 110 120 (run [MouseClick (Some (HitPlanet 2)), MouseDown 100 100] (init 0)))) = pi / 3 + 0.1"
proof -
  let ?s = "run [MouseClick (Some (HitPlanet 2)), MouseDown 100 100] (init 0)"
  have d: "isMouseDown (ctl ?s)" "cameraFollowMode ?s"
    by (simp_all add: checkPlanetClick_def init_length onMouseDown_def)
  have phi: "max (1 / 10) (min (pi - 1 / 10) (pi / 3 + 1 / 10)) = pi / 3 + 1 / 10"
    using pi_ge_two by (simp add: max_def min_def)
  show ?thesis
    using drag_while_following [OF d(1), of 110 120] d
    by (simp add: checkPlanetClick_def init_length onMouseDown_def init_ctl ctl_setup phi)
qed

text \<open>The claim as stated fails: with Earth focused (follow mode on, panel open) a
  drag by ten pixels changes the azimuth from 0 to -0.05; with the Sun focused the same
  drag changes the azimuth and moves the camera.\<close>

theorem drag_changes_parameters_while_focused:
  "cameraFollowMode (run [MouseClick (Some (HitPlanet 2)), MouseDown 100 100] (init 0))
   \<and> currentFocusedPlanet (run [MouseClick (Some (HitPlanet 2)), MouseDown 100 100] (init 0)) = Some 2
   \<and> planetInfo_active (run [MouseClick (Some (HitPlanet 2)), MouseDown 100 100] (init 0))
   \<and> spherical_theta (ctl (run [MouseClick (Some (HitPlanet 2)), MouseDown 100 100] (init 0))) = 0
   \<and> spherical_theta (ctl (dispatch (MouseMove 110 100)
        (run [MouseClick (Some (HitPlanet 2)), MouseDown 100 100] (init 0)))) = - 0.05
   \<and> planetInfo_active (run [MouseClick (Some HitSun), MouseDown 100 100] (init 0))
   \<and> spherical_theta (ctl (run [MouseClick (Some HitSun), MouseDown 100 100] (init 0))) = 0
   \<and> spherical_theta (ctl (dispatch (MouseMove 110 100)
        (run [MouseClick (Some HitSun), MouseDown 100 100] (init 0)))) = - 0.05
   \<and> cam (dispatch (MouseMove 110 100) (run [MouseClick (Some HitSun), MouseDown 100 100] (init 0)))
       \<noteq> cam (run [MouseClick (Some HitSun), MouseDown 100 100] (init 0))"
proof -
  have phi: "max (1 / 10) (min (pi - 1 / 10) (pi / 3)) = pi / 3"
    using pi_ge_two by (simp add: max_def min_def)
  have "0 < sin (1 / 20 :: real)"
    using pi_ge_two by (intro sin_gt_zero) simp_all
  then have sin: "sin (1 / 20 :: real) \<noteq> 0" by simp
  show ?thesis
    apply (simp add: checkPlanetClick_def init_length onMouseDown_def onMouseMove_def drag_def
             Let_def init_ctl ctl_setup)
    apply (simp add: updateCameraFromControls_def init_def created_state_ctl animate_def
             followCamera_def created_state_flags updateBodies_def setup_state_def
             setFromSpherical_def add_def Vector3_def phi sin sin_60)
    done
qed

subsection \<open>C5: the initial angle\<close>

text \<open>
  Claim C5. Whatever the list of descriptors and however long it is, the planet created
  from the descriptor at index \<open>i\<close> of a registry that starts empty has the orbital angle
  \<open>(i * 2 * pi) / 8\<close>: the divisor is the constant 8, not the number of bodies.
\<close>

theorem createSolarSystem_initial_angle:
  assumes "planets s = []" and "i < length ds"
  shows "angle (planets (createSolarSystem ds s) ! i) = (real i * pi * 2) / 8"
proof -
  have "planets (forEach_createPlanet ds 0 (createSun s)) ! (length (planets (createSun s)) + i)
        = last (planets (createPlanet (ds ! i) (0 + i) (createSun s)))"
    by (rule forEach_createPlanet_new [OF assms(2)])
  then show ?thesis
    using assms(1) by (simp add: createSolarSystem_def createPlanet_def)
qed

text \<open>Instance: index 3 of the eight authored planets, and index 9 of a registry of
  sixteen, where the angle passes a full turn.\<close>

theorem createSolarSystem_initial_angle_witness:
  "planets setup_state = [] \<and> (3::nat) < length planetData
   \<and> (9::nat) < length (planetData @ planetData)
   \<and> angle (planets (createSolarSystem planetData setup_state) ! 3) = (3 * pi * 2) / 8
   \<and> angle (planets (createSolarSystem (planetData @ planetData) setup_state) ! 9) = (9 * pi * 2) / 8"
  using createSolarSystem_initial_angle [of setup_state 3 planetData]
        createSolarSystem_initial_angle [of setup_state 9 "planetData @ planetData"]
  by (simp add: planets_setup_state planetData_def)

subsection \<open>C6: reset\<close>

text \<open>
  Claim C6. After any sequence of events, in particular of selections of the Sun and of
  planets, a click on the reset button leaves no planet referenced, follow mode off and
  the panel closed, and the orbit parameters at radius 50, polar angle \<open>pi / 3\<close>, azimuth
  0 and target the origin. A second click changes none of this: it leaves every field
  as it is but for starting once more the camera transition the first click started.
  Closing the panel has the same effect as the reset button.
\<close>

theorem reset_after_any_events:
  "currentFocusedPlanet (resetBtn_click (run es s)) = None
   \<and> \<not> cameraFollowMode (resetBtn_click (run es s))
   \<and> \<not> planetInfo_active (resetBtn_click (run es s))
   \<and> spherical_radius (ctl (resetBtn_click (run es s))) = 50
   \<and> spherical_phi (ctl (resetBtn_click (run es s))) = pi / 3
   \<and> spherical_theta (ctl (resetBtn_click (run es s))) = 0
   \<and> target (ctl (resetBtn_click (run es s))) = Vector3 0 0 0
   \<and> resetBtn_click (resetBtn_click (run es s))
       = (resetBtn_click (run es s))
           \<lparr>tweens := tweens (resetBtn_click (run es s)) @ [last (tweens (resetBtn_click (run es s)))]\<rparr>
   \<and> closeInfo_click (run es s) = resetBtn_click (run es s)"
  by (simp add: resetBtn_click_def closeInfo_click_def resetCameraView_def gsap_to_def)

text \<open>Instance: the Sun is selected, then Earth, then reset is clicked.\<close>

theorem reset_after_any_events_witness:
  "currentFocusedPlanet (run [MouseClick (Some HitSun), MouseClick (Some (HitPlanet 2))] (init 0)) = Some 2
   \<and> planetInfo_active (run [MouseClick (Some HitSun), MouseClick (Some (HitPlanet 2))] (init 0))
   \<and> currentFocusedPlanet (resetBtn_click (run [MouseClick (Some HitSun), MouseClick (Some (HitPlanet 2))] (init 0))) = None
   \<and> \<not> cameraFollowMode (resetBtn_click (run [MouseClick (Some HitSun), MouseClick (Some (HitPlanet 2))] (init 0)))
   \<and> \<not> planetInfo_active (resetBtn_click (run [MouseClick (Some HitSun), MouseClick (Some (HitPlanet 2))] (init 0)))
   \<and> spherical_radius (ctl (resetBtn_click (run [MouseClick (Some HitSun), MouseClick (Some (HitPlanet 2))] (init 0)))) = 50
   \<and> spherical_phi (ctl (resetBtn_click (run [MouseClick (Some HitSun), MouseClick (Some (HitPlanet 2))] (init 0)))) = pi / 3
   \<and> spherical_theta (ctl (resetBtn_click (run [MouseClick (Some HitSun), MouseClick (Some (HitPlanet 2))] (init 0)))) = 0
   \<and> target (ctl (resetBtn_click (run [MouseClick (Some HitSun), MouseClick (Some (HitPlanet 2))] (init 0)))) = Vector3 0 0 0"
  using reset_after_any_events [of "[MouseClick (Some HitSun), MouseClick (Some (HitPlanet 2))]" "init 0"]
  by (simp add: checkPlanetClick_def init_length)

subsection \<open>C7: the focus reference and the panel\<close>

text \<open>
  Claim C7, as amended. The script's focus reference is \<open>currentFocusedPlanet\<close>; it has
  no marker for the Sun. In every state reached from \<open>init\<close> by events: if a planet is
  referenced the panel is open; follow mode is on exactly when a planet is referenced;
  the referenced planet is in the registry and the panel shows its name; and when the
  panel is open with no planet referenced it shows the Sun.
\<close>

theorem focus_reference_implies_overlay:
  "(currentFocusedPlanet (run es (init t0)) \<noteq> None \<longrightarrow> planetInfo_active (run es (init t0)))
   \<and> (cameraFollowMode (run es (init t0)) \<longleftrightarrow> currentFocusedPlanet (run es (init t0)) \<noteq> None)
   \<and> (planetInfo_active (run es (init t0)) \<and> currentFocusedPlanet (run es (init t0)) = None
        \<longrightarrow> planetInfo_name (run es (init t0)) = ''Sun'')
   \<and> (\<forall>i. currentFocusedPlanet (run es (init t0)) = Some i
        \<longrightarrow> i < length (planets (run es (init t0)))
            \<and> planetInfo_name (run es (init t0)) = name (planets (run es (init t0)) ! i))"
  using focus_inv_run [OF focus_inv_init, of es t0]
  by (auto simp add: focus_inv_def split: option.splits)

text \<open>Instance: Earth, a frame, the Sun, then Jupiter are selected; and Earth is selected
  and the panel closed.\<close>

theorem focus_reference_implies_overlay_witness:
  "currentFocusedPlanet (run [MouseClick (Some (HitPlanet 2)), Frame 1, MouseClick (Some HitSun),
        MouseClick (Some (HitPlanet 4))] (init 0)) = Some 4
   \<and> planetInfo_active (run [MouseClick (Some (HitPlanet 2)), Frame 1, MouseClick (Some HitSun),
        MouseClick (Some (HitPlanet 4))] (init 0))
   \<and> cameraFollowMode (run [MouseClick (Some (HitPlanet 2)), Frame 1, MouseClick (Some HitSun),
        MouseClick (Some (HitPlanet 4))] (init 0))
   \<and> planetInfo_name (run [MouseClick (Some (HitPlanet 2)), Frame 1, MouseClick (Some HitSun),
        MouseClick (Some (HitPlanet 4))] (init 0))
       = name (planets (run [MouseClick (Some (HitPlanet 2)), Frame 1, MouseClick (Some HitSun),
        MouseClick (Some (HitPlanet 4))] (init 0)) ! 4)
   \<and> currentFocusedPlanet (run [MouseClick (Some (HitPlanet 2)), CloseInfoClick] (init 0)) = None
   \<and> \<not> cameraFollowMode (run [MouseClick (Some (HitPlanet 2)), CloseInfoClick] (init 0))
   \<and> \<not> planetInfo_active (run [MouseClick (Some (HitPlanet 2)), CloseInfoClick] (init 0))"
  using focus_reference_implies_overlay [of "[MouseClick (Some (HitPlanet 2)), Frame 1,
          MouseClick (Some HitSun), MouseClick (Some (HitPlanet 4))]" 0]
    focus_reference_implies_overlay [of "[MouseClick (Some (HitPlanet 2)), CloseInfoClick]" 0]
  by (simp add: checkPlanetClick_def init_length)

text \<open>The claim as stated fails in one direction: selecting the Sun opens the panel
  and sets the focus reference to null.\<close>

theorem overlay_visible_without_focus_reference:
  "planetInfo_active (run [MouseClick (Some HitSun)] (init 0))
   \<and> currentFocusedPlanet (run [MouseClick (Some HitSun)] (init 0)) = None
   \<and> \<not> cameraFollowMode (run [MouseClick (Some HitSun)] (init 0))"
  by (simp add: checkPlanetClick_def)

subsection \<open>C8: following a planet\<close>




subsection \<open>C9: a speed request for an unknown name\<close>

text \<open>
  Claim C9. A speed request that names no body of the registry changes nothing: the
  state it returns is the state it was given, and there is no error it could return.
  For a name that a body has, the request sets that body's speed to \<open>baseSpeed * value\<close>
  for whatever value it is given, with no clamping, and changes nothing else.
\<close>

theorem setSpeedMultiplier_unknown_name:
  "(nm \<notin> set (map name (planets s)) \<longrightarrow> setSpeedMultiplier nm v s = s)
   \<and> (i < length (planets s) \<and> name (planets s ! i) = nm \<and> (\<forall>j<i. name (planets s ! j) \<noteq> nm)
        \<longrightarrow> setSpeedMultiplier nm v s
             = s\<lparr>planets := (planets s)[i := (planets s ! i)\<lparr>speed := baseSpeed (planets s ! i) * v\<rparr>]\<rparr>)"
  using findSlider_None [of nm s] findSlider_first [of i s nm]
  by (auto simp add: setSpeedMultiplier_def slider_input_def)

text \<open>Instance: no planet is called Pluto; Earth at the value 7.5, beyond the slider's
  range.\<close>

theorem setSpeedMultiplier_unknown_name_witness:
  "''Pluto'' \<notin> set (map name (planets created_state))
   \<and> setSpeedMultiplier ''Pluto'' 2 created_state = created_state
   \<and> (2::nat) < length (planets created_state)
   \<and> name (planets created_state ! 2) = ''Earth''
   \<and> name (planets created_state ! 0) \<noteq> ''Earth'' \<and> name (planets created_state ! 1) \<noteq> ''Earth''
   \<and> speed (planets (setSpeedMultiplier ''Earth'' 7.5 created_state) ! 2) = 0.06
   \<and> angle (planets (setSpeedMultiplier ''Earth'' 7.5 created_state) ! 2) = pi / 2"
proof -
  have pluto: "''Pluto'' \<notin> set (map name (planets created_state))"
    by (simp add: created_state_planets planetData_def upt_rec)
  have l: "(2::nat) < length (planets created_state)"
    by (simp add: created_state_length)
  have n: "name (planets created_state ! 2) = ''Earth''"
          "name (planets created_state ! 0) \<noteq> ''Earth''"
          "name (planets created_state ! 1) \<noteq> ''Earth''"
    by (simp_all add: created_state_planets planetData_def upt_rec)
  have f: "\<forall>j<2. name (planets created_state ! j) \<noteq> ''Earth''"
    using n by (auto simp add: less_2_cases_iff)
  have e: "baseSpeed (planets created_state ! 2) = 0.008" "angle (planets created_state ! 2) = pi / 2"
    by (simp_all add: earth_created)
  show ?thesis
    using setSpeedMultiplier_unknown_name [of "''Pluto''" created_state 2 0]
      setSpeedMultiplier_unknown_name [of "''Earth''" created_state "7.5" 2] pluto l n f
    by (simp add: e)
qed

subsection \<open>C10: following while paused\<close>

text \<open>
  Claim C10. While the simulation is paused and a planet is followed, every frame still
  writes the camera: the position becomes the interpolation, by 0.05, from the old
  position to the target position computed from the planet's frozen position and angle,
  and the camera is oriented at the planet; the planets themselves stay as they are.
  Unless the camera is already at the target position, its position changes.
\<close>

theorem paused_follow_moves_camera:
  assumes "isPaused s" and "cameraFollowMode s" and "currentFocusedPlanet s = Some i"
    and "i < length (planets s)"
  shows "position (cam (animate t s))
           = lerp (position (cam s)) (targetCameraPosition (planets s ! i)) 0.05
         \<and> lookAt (cam (animate t s)) = mesh_position (planets s ! i)
         \<and> planets (animate t s) = planets s
         \<and> (position (cam s) \<noteq> targetCameraPosition (planets s ! i)
              \<longrightarrow> position (cam (animate t s)) \<noteq> position (cam s))"
  using assms by (simp add: animate_def followCamera_def Let_def lerp_fixed)

text \<open>Instance: Mercury is followed, paused, from the camera position (0, 30, 50).\<close>

theorem paused_follow_moves_camera_witness:
  "isPaused (mercury_followed (Vector3 0 30 50))
   \<and> cameraFollowMode (mercury_followed (Vector3 0 30 50))
   \<and> currentFocusedPlanet (mercury_followed (Vector3 0 30 50)) = Some 0
   \<and> 0 < length (planets (mercury_followed (Vector3 0 30 50)))
   \<and> position (cam (mercury_followed (Vector3 0 30 50))) = Vector3 0 30 50
   \<and> position (cam (animate 1 (mercury_followed (Vector3 0 30 50)))) = Vector3 0.64 28.65 47.8
   \<and> lookAt (cam (animate 1 (mercury_followed (Vector3 0 30 50)))) = Vector3 8 0 0
   \<and> planets (animate 1 (mercury_followed (Vector3 0 30 50))) = planets (mercury_followed (Vector3 0 30 50))"
proof -
  have l: "0 < length (planets (mercury_followed (Vector3 0 30 50)))"
    by (simp add: mercury_followed_fields created_state_length)
  show ?thesis
    using paused_follow_moves_camera [OF mercury_followed_fields(1,2,3) l, where t = 1] l
    by (simp add: mercury_followed_fields mercury_target mercury_position)
       (simp add: lerp_def Vector3_def)
qed

end
